theory Spec2Isabelle
  imports Complex_Main
begin

section \<open>Python values and exceptions\<close>

text \<open>
  The three Lambda handlers of the workflow (\<^verbatim>\<open>SerializeImageData.py\<close>,
  \<^verbatim>\<open>Classifier.py\<close>, \<^verbatim>\<open>FilterConfidence.py\<close>) are embedded as HOL functions on the
  argument types their docstrings document. A Python exception that leaves a handler
  is the \<open>Inl\<close> branch of the result, named by its exception class.

  Numbers: a Python \<^verbatim>\<open>int\<close> or finite \<^verbatim>\<open>float\<close> is modelled by a real number, a float
  by the decimal that \<^verbatim>\<open>repr\<close> prints for it (\<^verbatim>\<open>.93\<close> by \<open>0.93\<close>). That map is
  injective and strictly monotone on finite floats, so on them Python's equality, its
  order and \<^verbatim>\<open>max\<close> are those of the reals. NaN and the infinities are not modelled.

  Text: \<open>string\<close> is a list of 8-bit characters. It models both the content of a
  \<^verbatim>\<open>bytes\<close> object and an ASCII \<^verbatim>\<open>str\<close>; \<open>py_text\<close> keeps the Python type apart.
\<close>

datatype py_error =
    ValueError
  | TypeError
  | binascii_Error
  | ClientError
  | FileNotFoundError
  | JSONDecodeError

type_synonym 'a result = "py_error + 'a"

datatype py_text = Str string | Bytes string

datatype json =
    JNull
  | JBool bool
  | JNum real
  | JStr string
  | JArr "json list"
  | JObj "(string \<times> json) list"

section \<open>The envelope and the handlers' events\<close>

text \<open>
  The dictionary passed between the stages has the keys \<^verbatim>\<open>image_data\<close>, \<^verbatim>\<open>s3_bucket\<close>,
  \<^verbatim>\<open>s3_key\<close> and \<^verbatim>\<open>inferences\<close>. The first handler's event has only the two S3 keys,
  so the record of the envelope extends that of the S3 reference. The type of
  \<^verbatim>\<open>inferences\<close> is a parameter: a JSON value where the classifier writes what it
  parsed, a list of numbers where the filter reads its documented input.

  The second and third handler read the envelope under the key \<^verbatim>\<open>body\<close> of their event;
  every handler returns a dictionary with the keys \<^verbatim>\<open>statusCode\<close> and \<^verbatim>\<open>body\<close>. The
  records are extensible, so an event may carry further keys.
\<close>

record s3_ref =
  s3_bucket :: string
  s3_key :: string

record 'i envelope = s3_ref +
  image_data :: py_text
  inferences :: 'i

record 'b event =
  body :: 'b

record 'b response = "'b event" +
  statusCode :: int

text \<open>
  The value under \<^verbatim>\<open>body\<close> of a response is either a dictionary (the envelope) or the
  \<^verbatim>\<open>str\<close> that \<^verbatim>\<open>json.dumps\<close> returns for an event. The JSON text itself is not
  computed: \<open>Json_dumps e\<close> stands for the serialisation of \<open>e\<close>, so the second type
  parameter is the type of the handler's event.
\<close>

datatype ('i, 'e) py_body =
    Dict "'i envelope"
  | Json_dumps 'e

section \<open>FilterConfidence.py\<close>

definition THRESHOLD :: real where
  "THRESHOLD = 0.93"

text \<open>
  Python's \<^verbatim>\<open>max(iterable)\<close>: \<^verbatim>\<open>ValueError\<close> on an empty sequence; otherwise the first
  item is the candidate and a later item replaces it when it is greater.
\<close>

fun py_max :: "real list \<Rightarrow> real result" where
  "py_max [] = Inl ValueError"
| "py_max (x # xs) = Inr (fold (\<lambda>item maxitem. if item > maxitem then item else maxitem) xs x)"

text \<open>
  \<^verbatim>\<open>json.dumps(obj)\<close> returns the JSON text of \<open>obj\<close>, or raises \<^verbatim>\<open>TypeError\<close> when \<open>obj\<close>
  holds a value that is not serialisable. Under \<^verbatim>\<open>body\<close> such a value is an
  \<^verbatim>\<open>image_data\<close> that is a \<^verbatim>\<open>bytes\<close> object; strings and numbers are serialisable. What
  the further keys of the event hold is not fixed by its type: the predicate
  \<open>serializable\<close> says whether \<^verbatim>\<open>json.dumps\<close> can serialise them. \<open>json_values\<close> is that
  predicate for further keys that hold JSON values only, as in an event that was
  decoded from JSON, or for none.
\<close>

fun is_str :: "py_text \<Rightarrow> bool" where
  "is_str (Str s) = True"
| "is_str (Bytes b) = False"

definition json_serializable ::
  "('m \<Rightarrow> bool) \<Rightarrow> (real list envelope, 'm) event_scheme \<Rightarrow> bool" where
  "json_serializable serializable obj =
     (is_str (image_data (body obj)) \<and> serializable (event.more obj))"

definition json_dumps ::
  "('m \<Rightarrow> bool) \<Rightarrow> (real list envelope, 'm) event_scheme \<Rightarrow>
     ((real list, (real list envelope, 'm) event_scheme) py_body) result" where
  "json_dumps serializable obj =
     (if json_serializable serializable obj then Inr (Json_dumps obj) else Inl TypeError)"

definition json_values :: "'m \<Rightarrow> bool" where
  "json_values extras = True"

text \<open>
  \<^verbatim>\<open>
  inferences = event["body"]["inferences"]
  meets_threshold = (max(inferences) > THRESHOLD)
  if meets_threshold:
      pass
  else:
      raise("THRESHOLD_CONFIDENCE_NOT_MET")
  return {'statusCode': 200, 'body': json.dumps(event)}
  \<close>
  The operand of \<^verbatim>\<open>raise\<close> is a \<^verbatim>\<open>str\<close>, which is not an exception: the statement
  raises \<^verbatim>\<open>TypeError\<close> (exceptions must derive from BaseException), and the text of
  the string is lost. An exception of \<^verbatim>\<open>json.dumps\<close> leaves the handler as well.
\<close>

definition FilterConfidence_lambda_handler ::
  "('m \<Rightarrow> bool) \<Rightarrow> (real list envelope, 'm) event_scheme \<Rightarrow>
     ((real list, (real list envelope, 'm) event_scheme) py_body response) result" where
  "FilterConfidence_lambda_handler serializable event =
     (case py_max (inferences (body event)) of
        Inl e \<Rightarrow> Inl e
      | Inr m \<Rightarrow>
          (let meets_threshold = (m > THRESHOLD) in
           if meets_threshold
           then (case json_dumps serializable event of
                   Inl e \<Rightarrow> Inl e
                 | Inr text \<Rightarrow> Inr \<lparr>body = text, statusCode = 200\<rparr>)
           else Inl TypeError))"

section \<open>The \<^verbatim>\<open>base64\<close> module\<close>

text \<open>
  \<^verbatim>\<open>base64.b64encode(s)\<close> is \<^verbatim>\<open>binascii.b2a_base64(s, newline=False)\<close>: every three
  bytes become four characters of the alphabet, and a last group of one or two bytes
  is filled with \<^verbatim>\<open>=\<close>.
\<close>

definition b64_alphabet :: string where
  "b64_alphabet = ''ABCDEFGHIJKLMNOPQRSTUVWXYZabcdefghijklmnopqrstuvwxyz0123456789+/''"

definition b64_char :: "nat \<Rightarrow> char" where
  "b64_char n = b64_alphabet ! n"

definition b64_index :: "char \<Rightarrow> nat option" where
  "b64_index c = map_of (zip b64_alphabet [0..<64]) c"

fun b2a_base64 :: "string \<Rightarrow> string" where
  "b2a_base64 [] = []"
| "b2a_base64 [a] =
     [b64_char (of_char a div 4), b64_char (of_char a mod 4 * 16), CHR ''='', CHR ''='']"
| "b2a_base64 [a, b] =
     [b64_char (of_char a div 4), b64_char (of_char a mod 4 * 16 + of_char b div 16),
      b64_char (of_char b mod 16 * 4), CHR ''='']"
| "b2a_base64 (a # b # c # bin_data) =
     [b64_char (of_char a div 4), b64_char (of_char a mod 4 * 16 + of_char b div 16),
      b64_char (of_char b mod 16 * 4 + of_char c div 64), b64_char (of_char c mod 64)]
     @ b2a_base64 bin_data"

definition b64encode :: "string \<Rightarrow> string" where
  "b64encode s = b2a_base64 s"

text \<open>
  \<^verbatim>\<open>base64.b64decode(s)\<close> with the default \<^verbatim>\<open>validate=False\<close> turns an ASCII \<^verbatim>\<open>str\<close> into
  bytes (\<^verbatim>\<open>ValueError\<close> on a non-ASCII character) and calls \<^verbatim>\<open>binascii.a2b_base64\<close>,
  whose loop (CPython, not in strict mode) is \<open>a2b_loop\<close>: a character outside the
  alphabet is skipped;
  \<^verbatim>\<open>=\<close> is skipped unless it completes the padding of a group of two or three
  characters, where decoding stops; when the input ends inside a group,
  \<^verbatim>\<open>binascii.Error\<close> is raised. The state is the position in the group of four
  (\<open>quad_pos\<close>), the bits left over from the previous character (\<open>leftchar\<close>) and the
  number of padding characters seen (\<open>pads\<close>).
\<close>

fun a2b_loop :: "nat \<Rightarrow> nat \<Rightarrow> nat \<Rightarrow> string \<Rightarrow> string \<Rightarrow> string result" where
  "a2b_loop quad_pos leftchar pads bin_data [] =
     (if quad_pos \<noteq> 0 then Inl binascii_Error else Inr bin_data)"
| "a2b_loop quad_pos leftchar pads bin_data (this_ch # ascii_data) =
     (if this_ch = CHR ''='' then
        (if quad_pos \<ge> 2 then
           (if quad_pos + (pads + 1) \<ge> 4 then Inr bin_data
            else a2b_loop quad_pos leftchar (pads + 1) bin_data ascii_data)
         else a2b_loop quad_pos leftchar pads bin_data ascii_data)
      else
        (case b64_index this_ch of
           None \<Rightarrow> a2b_loop quad_pos leftchar pads bin_data ascii_data
         | Some v \<Rightarrow>
             (if quad_pos = 0 then a2b_loop 1 v 0 bin_data ascii_data
              else if quad_pos = 1 then
                a2b_loop 2 (v mod 16) 0
                  (bin_data @ [char_of (leftchar * 4 + v div 16)]) ascii_data
              else if quad_pos = 2 then
                a2b_loop 3 (v mod 4) 0
                  (bin_data @ [char_of (leftchar * 16 + v div 4)]) ascii_data
              else
                a2b_loop 0 0 0 (bin_data @ [char_of (leftchar * 64 + v)]) ascii_data)))"

definition a2b_base64 :: "string \<Rightarrow> string result" where
  "a2b_base64 ascii_data = a2b_loop 0 0 0 [] ascii_data"

definition b64decode :: "py_text \<Rightarrow> string result" where
  "b64decode s =
     (case s of
        Bytes b \<Rightarrow> a2b_base64 b
      | Str t \<Rightarrow>
          if list_all (\<lambda>c. of_char c < (128::nat)) t then a2b_base64 t
          else Inl ValueError)"

text \<open>
  The specification speaks of an \<^verbatim>\<open>image_data\<close> that is not valid base64. Valid base64,
  in the sense of RFC 4648 and for comparison with what \<open>b64decode\<close> accepts: whole
  groups of four characters, all of the alphabet, the last group ending in at most
  two \<^verbatim>\<open>=\<close>.
\<close>

definition valid_base64 :: "string \<Rightarrow> bool" where
  "valid_base64 s =
     (let data = takeWhile (\<lambda>c. c \<noteq> CHR ''='') s;
          padding = dropWhile (\<lambda>c. c \<noteq> CHR ''='') s
      in length s mod 4 = 0 \<and> list_all (\<lambda>c. b64_index c \<noteq> None) data \<and>
         (padding = [] \<or> padding = ''='' \<or> padding = ''==''))"

text \<open>The characters of a \<^verbatim>\<open>str\<close> or \<^verbatim>\<open>bytes\<close> value.\<close>

fun text_of :: "py_text \<Rightarrow> string" where
  "text_of (Str s) = s"
| "text_of (Bytes s) = s"

text \<open>
  What is left of a text when the characters that are neither of the alphabet nor
  the padding character are taken out.
\<close>

definition discard_non_alphabet :: "string \<Rightarrow> string" where
  "discard_non_alphabet s = filter (\<lambda>c. c = CHR ''='' \<or> b64_index c \<noteq> None) s"

section \<open>SerializeImageData.py\<close>

text \<open>
  The handler reads an object of S3 and writes a local file. Both stores are explicit:
  \<open>s3_objects\<close> maps a bucket and a key to the object's bytes, \<open>local_files\<close> a path to
  the file's bytes. \<^verbatim>\<open>download_file\<close> raises \<^verbatim>\<open>ClientError\<close> when there is no such object
  and writes the file otherwise.
\<close>

record storage =
  s3_objects :: "string \<times> string \<Rightarrow> string option"
  local_files :: "string \<Rightarrow> string option"

definition download_file ::
  "storage \<Rightarrow> string \<Rightarrow> string \<Rightarrow> string \<Rightarrow> unit result \<times> storage" where
  "download_file w bucket key filename =
     (case s3_objects w (bucket, key) of
        None \<Rightarrow> (Inl ClientError, w)
      | Some obj \<Rightarrow> (Inr (), w\<lparr>local_files := (local_files w)(filename \<mapsto> obj)\<rparr>))"

definition open_read :: "storage \<Rightarrow> string \<Rightarrow> string result" where
  "open_read w filename =
     (case local_files w filename of None \<Rightarrow> Inl FileNotFoundError | Some f \<Rightarrow> Inr f)"

text \<open>
  \<^verbatim>\<open>
  key = event["s3_key"]
  bucket = event["s3_bucket"]
  boto3.resource('s3').Bucket(bucket).download_file(key, "/tmp/image.png")
  with open("/tmp/image.png", "rb") as f:
      image_data = base64.b64encode(f.read())
  return {'statusCode': 200,
          'body': {"image_data": image_data, "s3_bucket": bucket,
                   "s3_key": key, "inferences": []}}
  \<close>
  \<^verbatim>\<open>b64encode\<close> returns a \<^verbatim>\<open>bytes\<close> object, which is what the handler puts under
  \<^verbatim>\<open>image_data\<close>. The \<^verbatim>\<open>print\<close> of the event's keys is not modelled.
\<close>

definition SerializeImageData_lambda_handler ::
  "storage \<Rightarrow> 'm s3_ref_scheme \<Rightarrow>
     ((json, 'm s3_ref_scheme) py_body response) result \<times> storage" where
  "SerializeImageData_lambda_handler w event =
     (let key = s3_key event;
          bucket = s3_bucket event
      in case download_file w bucket key ''/tmp/image.png'' of
           (Inl e, w') \<Rightarrow> (Inl e, w')
         | (Inr _, w') \<Rightarrow>
             (case open_read w' ''/tmp/image.png'' of
                Inl e \<Rightarrow> (Inl e, w')
              | Inr f \<Rightarrow>
                  (let image_data = b64encode f
                   in (Inr \<lparr>body = Dict \<lparr>s3_bucket = bucket, s3_key = key,
                                          image_data = Bytes image_data,
                                          inferences = JArr []\<rparr>,
                            statusCode = 200\<rparr>, w'))))"

section \<open>Classifier.py\<close>

definition ENDPOINT_NAME :: string where
  "ENDPOINT_NAME = ''image-classification-2024-12-22-09-40-10-368''"

text \<open>
  The SageMaker runtime client: \<open>endpoint\<close> is what the service answers to an
  invocation (the name of the endpoint, the content type, the body), an exception or
  the bytes of the answer's body; \<open>invocations\<close> records the calls made, in order.
  The body of an answer is modelled by what \<^verbatim>\<open>json.loads\<close> makes of its UTF-8 text:
  the JSON value it denotes, or nothing.
\<close>

datatype http_body = Json_body json | Malformed_body

record sagemaker_runtime =
  endpoint :: "string \<Rightarrow> string \<Rightarrow> string \<Rightarrow> http_body result"
  invocations :: "(string \<times> string \<times> string) list"

definition invoke_endpoint ::
  "sagemaker_runtime \<Rightarrow> string \<Rightarrow> string \<Rightarrow> string \<Rightarrow> http_body result \<times> sagemaker_runtime" where
  "invoke_endpoint runtime EndpointName ContentType Body =
     (endpoint runtime EndpointName ContentType Body,
      runtime\<lparr>invocations := invocations runtime @ [(EndpointName, ContentType, Body)]\<rparr>)"

fun json_loads :: "http_body \<Rightarrow> json result" where
  "json_loads (Json_body v) = Inr v"
| "json_loads Malformed_body = Inl JSONDecodeError"

text \<open>
  \<^verbatim>\<open>
  image = base64.b64decode(event["body"]["image_data"])
  predictor = runtime.invoke_endpoint(EndpointName=ENDPOINT_NAME,
                                      ContentType='image/png', Body=image)
  event["inferences"] = json.loads(predictor['Body'].read().decode('utf-8'))
  return {'statusCode': 200,
          'body': {"image_data": event["body"]['image_data'],
                   "s3_bucket": event["body"]['s3_bucket'],
                   "s3_key": event["body"]['s3_key'],
                   "inferences": event['inferences']}}
  \<close>
  The assignment to \<^verbatim>\<open>event["inferences"]\<close> adds a key to the event, read back in the
  returned dictionary; the value parsed is returned as it is.
\<close>

definition Classifier_lambda_handler ::
  "sagemaker_runtime \<Rightarrow> ('i envelope, 'm) event_scheme \<Rightarrow>
     ((json, ('i envelope, 'm) event_scheme) py_body response) result \<times> sagemaker_runtime" where
  "Classifier_lambda_handler runtime event =
     (case b64decode (image_data (body event)) of
        Inl e \<Rightarrow> (Inl e, runtime)
      | Inr image' \<Rightarrow>
          (case invoke_endpoint runtime ENDPOINT_NAME ''image/png'' image' of
             (Inl e, runtime') \<Rightarrow> (Inl e, runtime')
           | (Inr predictor, runtime') \<Rightarrow>
               (case json_loads predictor of
                  Inl e \<Rightarrow> (Inl e, runtime')
                | Inr event_inferences \<Rightarrow>
                    (Inr \<lparr>body = Dict \<lparr>s3_bucket = s3_bucket (body event),
                                         s3_key = s3_key (body event),
                                         image_data = image_data (body event),
                                         inferences = event_inferences\<rparr>,
                          statusCode = 200\<rparr>, runtime'))))"

text \<open>
  The specification speaks of a structurally invalid score list, with entries that
  are not numbers or with none: a score list is valid when it is a non-empty array
  of numbers. An endpoint that answers every invocation of the configured endpoint with one fixed
  body serves as the service in the examples.
\<close>

fun is_number :: "json \<Rightarrow> bool" where
  "is_number (JNum x) = True"
| "is_number v = False"

fun valid_scores :: "json \<Rightarrow> bool" where
  "valid_scores (JArr xs) = (xs \<noteq> [] \<and> list_all is_number xs)"
| "valid_scores v = False"

definition answering :: "http_body result \<Rightarrow> string \<Rightarrow> string \<Rightarrow> string \<Rightarrow> http_body result" where
  "answering answer EndpointName ContentType Body =
     (if EndpointName = ENDPOINT_NAME \<and> ContentType = ''image/png'' then answer
      else Inl ClientError)"

section \<open>The filter's decision\<close>

lemma py_max_fold:
  "fold (\<lambda>item maxitem. if item > maxitem then item else maxitem) xs (x::real)
     = Max (set (x # xs))"
proof (induction xs arbitrary: x)
  case Nil
  show ?case by simp
next
  case (Cons y ys)
  have "fold (\<lambda>item maxitem. if item > maxitem then item else maxitem) (y # ys) x
        = Max (set ((if y > x then y else x) # ys))"
    by (simp only: fold_simps Cons.IH)
  also have "\<dots> = Max (set (x # y # ys))"
    by (cases ys) (auto simp: max_def)
  finally show ?case .
qed

lemma py_max_nonempty: "xs \<noteq> [] \<Longrightarrow> py_max xs = Inr (Max (set xs))"
  by (cases xs) (simp_all only: py_max.simps py_max_fold, simp)

lemma filter_result:
  assumes "inferences (body event) \<noteq> []"
  shows "FilterConfidence_lambda_handler serializable event =
           (if Max (set (inferences (body event))) > THRESHOLD
               \<and> json_serializable serializable event
            then Inr \<lparr>body = Json_dumps event, statusCode = 200\<rparr> else Inl TypeError)"
  using assms
  by (simp add: FilterConfidence_lambda_handler_def json_dumps_def py_max_nonempty)

text \<open>
  Claim C1, as amended. On an envelope with a non-empty list of scores the filter
  returns a result exactly when the greatest score is strictly greater than 0.93 and
  \<^verbatim>\<open>json.dumps\<close> can serialise the event. So no list whose greatest score is 0.93 or
  less passes, and a list whose greatest score is above 0.93 passes when the event
  is serialisable. Which exception ends a rejected call is the subject of claim C2
  and is not stated here.
\<close>

theorem filter_passes_iff_max_exceeds_threshold:
  assumes "inferences (body event) \<noteq> []"
  shows "(\<exists>r. FilterConfidence_lambda_handler serializable event = Inr r)
           \<longleftrightarrow> Max (set (inferences (body event))) > 0.93
                \<and> json_serializable serializable event"
  by (simp add: filter_result [OF assms] THRESHOLD_def)

text \<open>
  The two examples of the specification, in a serialisable event: the scores 0.5,
  0.93, 0.4 give no result, the scores 0.2, 0.95, 0.1 give one.
\<close>

theorem filter_passes_iff_max_exceeds_threshold_witness:
  "json_serializable json_values
     \<lparr>body = \<lparr>s3_bucket = ''imgs'', s3_key = ''cat.png'', image_data = Str ''YWJj'',
              inferences = [0.5, 0.93, 0.4]\<rparr>\<rparr> \<and>
   \<not> (\<exists>r. FilterConfidence_lambda_handler json_values
     \<lparr>body = \<lparr>s3_bucket = ''imgs'', s3_key = ''cat.png'', image_data = Str ''YWJj'',
              inferences = [0.5, 0.93, 0.4]\<rparr>\<rparr> = Inr r) \<and>
   (\<exists>r. FilterConfidence_lambda_handler json_values
     \<lparr>body = \<lparr>s3_bucket = ''imgs'', s3_key = ''cat.png'', image_data = Str ''YWJj'',
              inferences = [0.2, 0.95, 0.1]\<rparr>\<rparr> = Inr r)"
  using filter_passes_iff_max_exceeds_threshold
          [of "\<lparr>body = \<lparr>s3_bucket = ''imgs'', s3_key = ''cat.png'', image_data = Str ''YWJj'',
              inferences = [0.5, 0.93, 0.4]\<rparr>\<rparr>" json_values]
        filter_passes_iff_max_exceeds_threshold
          [of "\<lparr>body = \<lparr>s3_bucket = ''imgs'', s3_key = ''cat.png'', image_data = Str ''YWJj'',
              inferences = [0.2, 0.95, 0.1]\<rparr>\<rparr>" json_values]
  by (simp add: json_serializable_def json_values_def)

text \<open>
  The claim as stated fails: with the scores 0.2, 0.95, 0.1, whose greatest is above
  0.93, and an \<^verbatim>\<open>image_data\<close> that is a \<^verbatim>\<open>bytes\<close> object, as the loader returns it,
  \<^verbatim>\<open>json.dumps\<close> raises \<^verbatim>\<open>TypeError\<close> and the filter returns no result.
\<close>

theorem filter_fails_above_threshold_on_bytes:
  "[0.2, 0.95, 0.1 :: real] \<noteq> [] \<and> Max (set [0.2, 0.95, 0.1 :: real]) > 0.93 \<and>
   FilterConfidence_lambda_handler json_values
     \<lparr>body = \<lparr>s3_bucket = ''imgs'', s3_key = ''cat.png'', image_data = Bytes ''YWJj'',
              inferences = [0.2, 0.95, 0.1]\<rparr>, statusCode = 200\<rparr> = Inl TypeError"
  by (simp add: FilterConfidence_lambda_handler_def json_dumps_def json_serializable_def
        THRESHOLD_def)

text \<open>
  Claim C2. Below or at the threshold the filter is to fail with an error of its own,
  named for the threshold. At the scores 0.5, 0.93, 0.4 (the event being the
  classifier's whole answer) the handler returns no result, but the exception that
  leaves it is Python's \<open>TypeError\<close>, raised because the operand of \<^verbatim>\<open>raise\<close> is a string;
  the name in that string does not reach the caller.
\<close>

theorem filter_raises_TypeError_at_threshold:
  "FilterConfidence_lambda_handler serializable
     \<lparr>body = \<lparr>s3_bucket = ''imgs'', s3_key = ''cat.png'', image_data = Str ''YWJj'',
              inferences = [0.5, 0.93, 0.4]\<rparr>, statusCode = 200\<rparr> = Inl TypeError"
  by (simp add: FilterConfidence_lambda_handler_def THRESHOLD_def)

text \<open>
  Claim C7. On an envelope whose list of scores is empty the filter fails with
  \<open>ValueError\<close>, raised by \<^verbatim>\<open>max\<close>: this is not the exception of the rejection below the
  threshold, and no result is returned.
\<close>

theorem filter_empty_scores_ValueError:
  assumes "inferences (body event) = []"
  shows "FilterConfidence_lambda_handler serializable event = Inl ValueError \<and>
         FilterConfidence_lambda_handler serializable event \<noteq> Inl TypeError \<and>
         (\<forall>r. FilterConfidence_lambda_handler serializable event \<noteq> Inr r)"
  using assms by (simp add: FilterConfidence_lambda_handler_def)

theorem filter_empty_scores_ValueError_witness:
  "FilterConfidence_lambda_handler json_values
     \<lparr>body = \<lparr>s3_bucket = ''imgs'', s3_key = ''cat.png'', image_data = Str ''YWJj'',
              inferences = []\<rparr>\<rparr> = Inl ValueError"
  using filter_empty_scores_ValueError
          [of "\<lparr>body = \<lparr>s3_bucket = ''imgs'', s3_key = ''cat.png'', image_data = Str ''YWJj'',
              inferences = []\<rparr>\<rparr>" json_values]
  by simp

text \<open>
  Claim C10, as amended. Two envelopes with non-empty lists of scores that have the
  same greatest element, in events that \<^verbatim>\<open>json.dumps\<close> can serialise both or neither,
  get the same outcome: both pass, or both fail with the same exception, whatever
  the lengths of the lists, the order and the other elements, and whether or not
  the scores lie between 0 and 1.
\<close>

theorem filter_decision_depends_on_max_only:
  assumes "inferences (body event1) \<noteq> []" and "inferences (body event2) \<noteq> []"
    and "Max (set (inferences (body event1))) = Max (set (inferences (body event2)))"
    and "json_serializable serializable1 event1 \<longleftrightarrow> json_serializable serializable2 event2"
  shows "((\<exists>r. FilterConfidence_lambda_handler serializable1 event1 = Inr r)
            \<longleftrightarrow> (\<exists>r. FilterConfidence_lambda_handler serializable2 event2 = Inr r)) \<and>
         (\<forall>e. FilterConfidence_lambda_handler serializable1 event1 = Inl e
            \<longleftrightarrow> FilterConfidence_lambda_handler serializable2 event2 = Inl e)"
  using assms(3,4) by (simp add: filter_result [OF assms(1)] filter_result [OF assms(2)])

theorem filter_decision_depends_on_max_only_witness:
  "Max (set [2.5, -3, 0.2 :: real]) = Max (set [0.1, 2.5, 0.95, 2.5 :: real]) \<and>
   ((\<exists>r. FilterConfidence_lambda_handler json_values
       \<lparr>body = \<lparr>s3_bucket = ''imgs'', s3_key = ''cat.png'', image_data = Str ''YWJj'',
                inferences = [2.5, -3, 0.2]\<rparr>\<rparr> = Inr r)
    \<longleftrightarrow> (\<exists>r. FilterConfidence_lambda_handler json_values
       \<lparr>body = \<lparr>s3_bucket = ''pets'', s3_key = ''dog.png'', image_data = Str ''YQ=='',
                inferences = [0.1, 2.5, 0.95, 2.5]\<rparr>, statusCode = 200\<rparr> = Inr r))"
  using filter_decision_depends_on_max_only
          [of "\<lparr>body = \<lparr>s3_bucket = ''imgs'', s3_key = ''cat.png'', image_data = Str ''YWJj'',
                inferences = [2.5, -3, 0.2]\<rparr>\<rparr>"
              "\<lparr>body = \<lparr>s3_bucket = ''pets'', s3_key = ''dog.png'', image_data = Str ''YQ=='',
                inferences = [0.1, 2.5, 0.95, 2.5]\<rparr>, statusCode = 200\<rparr>"
              json_values json_values]
  by (simp add: json_serializable_def json_values_def)

text \<open>
  The claim as stated fails: two envelopes with the greatest score 0.95, one with an
  \<^verbatim>\<open>image_data\<close> that is a \<^verbatim>\<open>str\<close> and one with an \<^verbatim>\<open>image_data\<close> that is a \<^verbatim>\<open>bytes\<close>
  object; the filter returns a result for the first and raises for the second.
\<close>

theorem filter_decision_differs_on_bytes:
  "Max (set [0.2, 0.95, 0.1 :: real]) = Max (set [0.95 :: real]) \<and>
   FilterConfidence_lambda_handler json_values
     \<lparr>body = \<lparr>s3_bucket = ''imgs'', s3_key = ''cat.png'', image_data = Str ''YWJj'',
              inferences = [0.2, 0.95, 0.1]\<rparr>, statusCode = 200\<rparr>
   = Inr \<lparr>body = Json_dumps
               \<lparr>body = \<lparr>s3_bucket = ''imgs'', s3_key = ''cat.png'', image_data = Str ''YWJj'',
                        inferences = [0.2, 0.95, 0.1]\<rparr>, statusCode = 200\<rparr>,
           statusCode = 200\<rparr> \<and>
   FilterConfidence_lambda_handler json_values
     \<lparr>body = \<lparr>s3_bucket = ''imgs'', s3_key = ''cat.png'', image_data = Bytes ''YWJj'',
              inferences = [0.95]\<rparr>, statusCode = 200\<rparr> = Inl TypeError"
  by (simp add: FilterConfidence_lambda_handler_def json_dumps_def json_serializable_def
        json_values_def THRESHOLD_def)

text \<open>
  Claim C4, as amended. On an envelope with a non-empty list of scores whose greatest
  element is strictly greater than 0.93, in an event that \<^verbatim>\<open>json.dumps\<close> can
  serialise, the filter returns the status 200 and, under \<^verbatim>\<open>body\<close>, the JSON text of
  its whole event, as its docstring says: a string that serialises the unchanged
  event, not the dictionary of the envelope.
\<close>

theorem filter_result_body_is_json_text:
  assumes "inferences (body event) \<noteq> []"
    and "Max (set (inferences (body event))) > 0.93"
    and "json_serializable serializable event"
  shows "FilterConfidence_lambda_handler serializable event
           = Inr \<lparr>body = Json_dumps event, statusCode = 200\<rparr>"
  using assms(2,3) by (simp add: filter_result [OF assms(1)] THRESHOLD_def)

theorem filter_result_body_is_json_text_witness:
  "FilterConfidence_lambda_handler json_values
     \<lparr>body = \<lparr>s3_bucket = ''imgs'', s3_key = ''cat.png'', image_data = Str ''YWJj'',
              inferences = [0.2, 0.95, 0.1]\<rparr>, statusCode = 200\<rparr>
   = Inr \<lparr>body = Json_dumps
               \<lparr>body = \<lparr>s3_bucket = ''imgs'', s3_key = ''cat.png'', image_data = Str ''YWJj'',
                        inferences = [0.2, 0.95, 0.1]\<rparr>, statusCode = 200\<rparr>,
           statusCode = 200\<rparr>"
  using filter_result_body_is_json_text
          [of "\<lparr>body = \<lparr>s3_bucket = ''imgs'', s3_key = ''cat.png'', image_data = Str ''YWJj'',
              inferences = [0.2, 0.95, 0.1]\<rparr>, statusCode = 200\<rparr>" json_values]
  by (simp add: json_serializable_def json_values_def)

text \<open>
  The claim as stated fails: on the scores 0.2, 0.95, 0.1 the body of the result is
  the text returned by \<^verbatim>\<open>json.dumps\<close>, which is not the envelope.
\<close>

theorem filter_body_differs_from_envelope:
  "FilterConfidence_lambda_handler json_values
     \<lparr>body = \<lparr>s3_bucket = ''imgs'', s3_key = ''cat.png'', image_data = Str ''YWJj'',
              inferences = [0.2, 0.95, 0.1]\<rparr>\<rparr>
   = Inr \<lparr>body = Json_dumps
               \<lparr>body = \<lparr>s3_bucket = ''imgs'', s3_key = ''cat.png'', image_data = Str ''YWJj'',
                        inferences = [0.2, 0.95, 0.1]\<rparr>\<rparr>,
           statusCode = 200\<rparr> \<and>
   Json_dumps \<lparr>body = \<lparr>s3_bucket = ''imgs'', s3_key = ''cat.png'', image_data = Str ''YWJj'',
                        inferences = [0.2, 0.95, 0.1]\<rparr>\<rparr>
   \<noteq> Dict \<lparr>s3_bucket = ''imgs'', s3_key = ''cat.png'', image_data = Str ''YWJj'',
            inferences = [0.2, 0.95, 0.1 :: real]\<rparr>"
  by (simp add: FilterConfidence_lambda_handler_def json_dumps_def json_serializable_def
        json_values_def THRESHOLD_def)

section \<open>Decoding what was encoded\<close>

text \<open>
  The table of the alphabet: the index of the \<open>n\<close>-th character is \<open>n\<close>, no character
  of the alphabet is the padding character, and all are ASCII.
\<close>

lemma b64_alphabet_table:
  "\<forall>n \<in> set [0..<64]. b64_index (b64_char n) = Some n \<and> b64_char n \<noteq> CHR ''=''
       \<and> of_char (b64_char n) < (128::nat)"
  by code_simp

lemma b64_index_char: "n < 64 \<Longrightarrow> b64_index (b64_char n) = Some n"
  using b64_alphabet_table by simp

lemma b64_char_not_pad: "n < 64 \<Longrightarrow> b64_char n \<noteq> CHR ''=''"
  using b64_alphabet_table by simp

lemma b64_char_ascii: "n < 64 \<Longrightarrow> of_char (b64_char n) < (128::nat)"
  using b64_alphabet_table by simp

lemma b64_index_pad: "b64_index (CHR ''='') = None"
  by code_simp

lemma b64_alphabet_ascii: "list_all (\<lambda>c. of_char c < (128::nat)) b64_alphabet"
  by code_simp

lemma b64_index_ascii:
  assumes "b64_index c \<noteq> None"
  shows "of_char c < (128::nat)"
proof -
  from assms obtain n where "map_of (zip b64_alphabet [0..<64]) c = Some n"
    by (auto simp: b64_index_def)
  then have "c \<in> set b64_alphabet"
    by (auto dest: map_of_SomeD set_zip_leftD)
  with b64_alphabet_ascii show ?thesis
    by (simp add: list_all_iff)
qed

text \<open>
  One group: four characters of the alphabet give three bytes, and the two padded
  forms of the last group give one and two bytes.
\<close>

lemma a2b_loop_quad:
  assumes "s1 < 64" "s2 < 64" "s3 < 64" "s4 < 64"
  shows "a2b_loop 0 l p out (b64_char s1 # b64_char s2 # b64_char s3 # b64_char s4 # rest)
       = a2b_loop 0 0 0 (out @ [char_of (s1 * 4 + s2 div 16), char_of (s2 mod 16 * 16 + s3 div 4),
                                char_of (s3 mod 4 * 64 + s4)]) rest"
  using assms by (simp add: b64_index_char b64_char_not_pad)

lemma a2b_loop_pad2:
  assumes "s1 < 64" "s2 < 64"
  shows "a2b_loop 0 l p out [b64_char s1, b64_char s2, CHR ''='', CHR ''='']
       = Inr (out @ [char_of (s1 * 4 + s2 div 16)])"
  using assms by (simp add: b64_index_char b64_char_not_pad)

lemma a2b_loop_pad1:
  assumes "s1 < 64" "s2 < 64" "s3 < 64"
  shows "a2b_loop 0 l p out [b64_char s1, b64_char s2, b64_char s3, CHR ''='']
       = Inr (out @ [char_of (s1 * 4 + s2 div 16), char_of (s2 mod 16 * 16 + s3 div 4)])"
  using assms by (simp add: b64_index_char b64_char_not_pad)

lemma sextet_bounds:
  fixes a b c :: nat
  assumes "a < 256" "b < 256" "c < 256"
  shows "a div 4 < 64" "a mod 4 * 16 + b div 16 < 64" "b mod 16 * 4 + c div 64 < 64"
        "c mod 64 < 64" "a mod 4 * 16 < 64" "b mod 16 * 4 < 64"
  using assms by auto

lemma sextets_regroup:
  fixes a b c :: nat
  assumes "b < 256" "c < 256"
  shows "a div 4 * 4 + (a mod 4 * 16 + b div 16) div 16 = a"
        "(a mod 4 * 16 + b div 16) mod 16 * 16 + (b mod 16 * 4 + c div 64) div 4 = b"
        "(b mod 16 * 4 + c div 64) mod 4 * 64 + c mod 64 = c"
        "a div 4 * 4 + (a mod 4 * 16) div 16 = a"
        "(a mod 4 * 16 + b div 16) mod 16 * 16 + (b mod 16 * 4) div 4 = b"
  using assms by auto

lemma of_char_less_256: "of_char (c::char) < (256::nat)"
  by simp

text \<open>The decoder, started at the beginning of a group, inverts the encoder.\<close>

lemma a2b_loop_b2a_base64: "a2b_loop 0 l p out (b2a_base64 bs) = Inr (out @ bs)"
proof (induction bs arbitrary: l p out rule: b2a_base64.induct)
  case 1
  show ?case by simp
next
  case (2 a)
  have "a2b_loop 0 l p out (b2a_base64 [a])
      = Inr (out @ [char_of (of_char a div 4 * 4 + (of_char a mod 4 * 16) div 16 :: nat)])"
    unfolding b2a_base64.simps
    by (rule a2b_loop_pad2) (rule sextet_bounds of_char_less_256)+
  also have "of_char a div 4 * 4 + (of_char a mod 4 * 16) div 16 = (of_char a :: nat)"
    by (rule sextets_regroup(4)) (rule of_char_less_256)+
  finally show ?case by simp
next
  case (3 a b)
  have "a2b_loop 0 l p out (b2a_base64 [a, b])
      = Inr (out @
          [char_of (of_char a div 4 * 4 + (of_char a mod 4 * 16 + of_char b div 16) div 16 :: nat),
           char_of ((of_char a mod 4 * 16 + of_char b div 16) mod 16 * 16
                      + (of_char b mod 16 * 4) div 4 :: nat)])"
    unfolding b2a_base64.simps
    by (rule a2b_loop_pad1) (rule sextet_bounds of_char_less_256)+
  also have "of_char a div 4 * 4 + (of_char a mod 4 * 16 + of_char b div 16) div 16
               = (of_char a :: nat)"
    by (rule sextets_regroup(1)) (rule of_char_less_256)+
  also have "(of_char a mod 4 * 16 + of_char b div 16) mod 16 * 16 + (of_char b mod 16 * 4) div 4
               = (of_char b :: nat)"
    by (rule sextets_regroup(5)) (rule of_char_less_256)+
  finally show ?case by simp
next
  case (4 a b c bin_data)
  have "a2b_loop 0 l p out (b2a_base64 (a # b # c # bin_data))
      = a2b_loop 0 0 0 (out @
          [char_of (of_char a div 4 * 4 + (of_char a mod 4 * 16 + of_char b div 16) div 16 :: nat),
           char_of ((of_char a mod 4 * 16 + of_char b div 16) mod 16 * 16
                      + (of_char b mod 16 * 4 + of_char c div 64) div 4 :: nat),
           char_of ((of_char b mod 16 * 4 + of_char c div 64) mod 4 * 64 + of_char c mod 64 :: nat)])
          (b2a_base64 bin_data)"
    unfolding b2a_base64.simps append.simps
    by (rule a2b_loop_quad) (rule sextet_bounds of_char_less_256)+
  also have "of_char a div 4 * 4 + (of_char a mod 4 * 16 + of_char b div 16) div 16
               = (of_char a :: nat)"
    by (rule sextets_regroup(1)) (rule of_char_less_256)+
  also have "(of_char a mod 4 * 16 + of_char b div 16) mod 16 * 16
               + (of_char b mod 16 * 4 + of_char c div 64) div 4 = (of_char b :: nat)"
    by (rule sextets_regroup(2)) (rule of_char_less_256)+
  also have "(of_char b mod 16 * 4 + of_char c div 64) mod 4 * 64 + of_char c mod 64
               = (of_char c :: nat)"
    by (rule sextets_regroup(3)) (rule of_char_less_256)+
  also have "a2b_loop 0 0 0
               (out @ [char_of (of_char a :: nat), char_of (of_char b :: nat),
                       char_of (of_char c :: nat)]) (b2a_base64 bin_data)
     = Inr ((out @ [char_of (of_char a :: nat), char_of (of_char b :: nat),
                    char_of (of_char c :: nat)]) @ bin_data)"
    by (rule "4.IH")
  finally show ?case by simp
qed

lemma b2a_base64_ascii: "list_all (\<lambda>c. of_char c < (128::nat)) (b2a_base64 bs)"
proof (induction bs rule: b2a_base64.induct)
  case 1
  show ?case by simp
next
  case (2 a)
  have "of_char a div 4 < (64::nat)" "of_char a mod 4 * 16 < (64::nat)"
    by (rule sextet_bounds; rule of_char_less_256)+
  then show ?case by (simp add: b64_char_ascii)
next
  case (3 a b)
  have "of_char a div 4 < (64::nat)" "of_char a mod 4 * 16 + of_char b div 16 < (64::nat)"
       "of_char b mod 16 * 4 < (64::nat)"
    by (rule sextet_bounds; rule of_char_less_256)+
  then show ?case by (simp add: b64_char_ascii)
next
  case (4 a b c bin_data)
  have "of_char a div 4 < (64::nat)" "of_char a mod 4 * 16 + of_char b div 16 < (64::nat)"
       "of_char b mod 16 * 4 + of_char c div 64 < (64::nat)" "of_char c mod 64 < (64::nat)"
    by (rule sextet_bounds; rule of_char_less_256)+
  with 4 show ?case by (simp add: b64_char_ascii)
qed

lemma b64decode_b64encode:
  "b64decode (Bytes (b64encode bs)) = Inr bs" "b64decode (Str (b64encode bs)) = Inr bs"
  by (simp_all add: b64decode_def b64encode_def a2b_base64_def a2b_loop_b2a_base64
        b2a_base64_ascii)

text \<open>
  The only exceptions of \<open>b64decode\<close> are \<^verbatim>\<open>binascii.Error\<close> and \<^verbatim>\<open>ValueError\<close>, and it
  raises on no valid base64 text: the characters before the padding move the
  position in the group by their number, and the padding then ends a group.
\<close>

lemma a2b_loop_error: "a2b_loop q l p out s = Inl e \<Longrightarrow> e = binascii_Error"
  by (induction q l p out s rule: a2b_loop.induct) (auto split: if_splits option.splits)

lemma b64decode_error: "b64decode s = Inl e \<Longrightarrow> e = binascii_Error \<or> e = ValueError"
  by (auto simp: b64decode_def a2b_base64_def split: py_text.splits if_splits dest: a2b_loop_error)

lemma a2b_loop_step:
  assumes "b64_index c = Some v" and "q < 4"
  shows "\<exists>l' out'. a2b_loop q l p out (c # rest) = a2b_loop ((q + 1) mod 4) l' 0 out' rest"
proof -
  from assms(1) b64_index_pad have c: "c \<noteq> CHR ''=''"
    by (metis option.distinct(1))
  from assms(2) consider "q = 0" | "q = 1" | "q = 2" | "q = 3"
    by linarith
  then show ?thesis
  proof cases
    case 1
    have "a2b_loop 0 l p out (c # rest) = a2b_loop 1 v 0 out rest"
      using c assms(1) by simp
    moreover have "(q + 1) mod 4 = 1" using 1 by simp
    ultimately show ?thesis using 1 by metis
  next
    case 2
    have "a2b_loop 1 l p out (c # rest)
        = a2b_loop 2 (v mod 16) 0 (out @ [char_of (l * 4 + v div 16)]) rest"
      using c assms(1) by simp
    moreover have "(q + 1) mod 4 = 2" using 2 by simp
    ultimately show ?thesis using 2 by metis
  next
    case 3
    have "a2b_loop 2 l p out (c # rest)
        = a2b_loop 3 (v mod 4) 0 (out @ [char_of (l * 16 + v div 4)]) rest"
      using c assms(1) by simp
    moreover have "(q + 1) mod 4 = 3" using 3 by simp
    ultimately show ?thesis using 3 by metis
  next
    case 4
    have "a2b_loop 3 l p out (c # rest)
        = a2b_loop 0 0 0 (out @ [char_of (l * 64 + v)]) rest"
      using c assms(1) by simp
    moreover have "(q + 1) mod 4 = 0" using 4 by simp
    ultimately show ?thesis using 4 by metis
  qed
qed

lemma a2b_loop_data:
  assumes "list_all (\<lambda>c. b64_index c \<noteq> None) data" and "data \<noteq> []" and "q < 4"
  shows "\<exists>l' out'. a2b_loop q l p out (data @ rest)
                     = a2b_loop ((q + length data) mod 4) l' 0 out' rest"
  using assms
proof (induction data arbitrary: q l p out)
  case Nil
  then show ?case by simp
next
  case (Cons c cs)
  from Cons.prems(1) obtain v where v: "b64_index c = Some v"
    by auto
  from a2b_loop_step [OF v \<open>q < 4\<close>] obtain l1 out1 where step:
    "a2b_loop q l p out (c # cs @ rest) = a2b_loop ((q + 1) mod 4) l1 0 out1 (cs @ rest)"
    by blast
  show ?case
  proof (cases "cs = []")
    case True
    with step show ?thesis by auto
  next
    case False
    from Cons.prems(1) have "list_all (\<lambda>c. b64_index c \<noteq> None) cs" by simp
    from Cons.IH [OF this False, of "(q + 1) mod 4" l1 0 out1]
    obtain l' out' where
      "a2b_loop ((q + 1) mod 4) l1 0 out1 (cs @ rest)
         = a2b_loop (((q + 1) mod 4 + length cs) mod 4) l' 0 out' rest"
      by auto
    moreover have "((q + 1) mod 4 + length cs) mod 4 = (q + length (c # cs)) mod 4"
      by (simp add: mod_add_left_eq)
    ultimately have "a2b_loop q l p out ((c # cs) @ rest)
         = a2b_loop ((q + length (c # cs)) mod 4) l' 0 out' rest"
      using step by simp
    then show ?thesis by blast
  qed
qed

lemma valid_base64_decodes:
  assumes "valid_base64 s"
  shows "\<exists>bs. a2b_base64 s = Inr bs"
proof -
  define data where "data = takeWhile (\<lambda>c. c \<noteq> CHR ''='') s"
  define padding where "padding = dropWhile (\<lambda>c. c \<noteq> CHR ''='') s"
  have s: "s = data @ padding"
    by (simp add: data_def padding_def)
  from assms have len: "length s mod 4 = 0"
    and data: "list_all (\<lambda>c. b64_index c \<noteq> None) data"
    and padding: "padding = [] \<or> padding = ''='' \<or> padding = ''==''"
    by (simp_all add: valid_base64_def Let_def data_def padding_def)
  show ?thesis
  proof (cases "data = []")
    case True
    have "s = []"
    proof (rule ccontr)
      assume "s \<noteq> []"
      with True s padding have "length s = 1 \<or> length s = 2" by auto
      with len show False by auto
    qed
    then show ?thesis by (simp add: a2b_base64_def)
  next
    case False
    from a2b_loop_data [OF data False, of 0 0 0 "[]" padding]
    obtain l' out' where run:
      "a2b_base64 s = a2b_loop (length data mod 4) l' 0 out' padding"
      by (auto simp: a2b_base64_def s)
    from padding consider "padding = []" | "padding = ''=''" | "padding = ''==''" by blast
    then show ?thesis
    proof cases
      case 1
      with len s have "length data mod 4 = 0" by simp
      with run 1 show ?thesis by simp
    next
      case 2
      with len s have "(length data + 1) mod 4 = 0" by simp
      then have "length data mod 4 = 3" by presburger
      with run 2 show ?thesis by simp
    next
      case 3
      with len s have "(length data + 2) mod 4 = 0" by simp
      then have "length data mod 4 = 2" by presburger
      with run 3 show ?thesis by simp
    qed
  qed
qed

lemma padding_ascii:
  assumes "p = [] \<or> p = ''='' \<or> p = ''==''"
  shows "list_all (\<lambda>c. of_char c < (128::nat)) p"
  using assms by auto

lemma valid_base64_ascii:
  assumes "valid_base64 s"
  shows "list_all (\<lambda>c. of_char c < (128::nat)) s"
proof -
  have s: "s = takeWhile (\<lambda>c. c \<noteq> CHR ''='') s @ dropWhile (\<lambda>c. c \<noteq> CHR ''='') s"
    by simp
  from assms have data: "list_all (\<lambda>c. b64_index c \<noteq> None) (takeWhile (\<lambda>c. c \<noteq> CHR ''='') s)"
    and padding: "dropWhile (\<lambda>c. c \<noteq> CHR ''='') s = [] \<or> dropWhile (\<lambda>c. c \<noteq> CHR ''='') s = ''=''
        \<or> dropWhile (\<lambda>c. c \<noteq> CHR ''='') s = ''==''"
    by (simp_all add: valid_base64_def Let_def)
  from data have "list_all (\<lambda>c. of_char c < (128::nat)) (takeWhile (\<lambda>c. c \<noteq> CHR ''='') s)"
    by (auto simp: list_all_iff intro: b64_index_ascii)
  moreover have "list_all (\<lambda>c. of_char c < (128::nat)) (dropWhile (\<lambda>c. c \<noteq> CHR ''='') s)"
    by (rule padding_ascii) (rule padding)
  ultimately have "list_all (\<lambda>c. of_char c < (128::nat))
      (takeWhile (\<lambda>c. c \<noteq> CHR ''='') s @ dropWhile (\<lambda>c. c \<noteq> CHR ''='') s)"
    by (simp only: list_all_append simp_thms)
  then show ?thesis by simp
qed

lemma b64decode_error_invalid:
  assumes "b64decode t = Inl e"
  shows "\<not> valid_base64 (text_of t)"
proof
  assume v: "valid_base64 (text_of t)"
  from valid_base64_decodes [OF v] valid_base64_ascii [OF v] assms show False
    by (cases t) (auto simp: b64decode_def)
qed

text \<open>
  The decoder reads a text as it reads what is left of it when the characters that
  are neither of the alphabet nor the padding character are taken out.
\<close>

lemma a2b_loop_discard:
  "a2b_loop q l p out (discard_non_alphabet s) = a2b_loop q l p out s"
  unfolding discard_non_alphabet_def
  by (induction q l p out s rule: a2b_loop.induct) (simp_all split: option.splits)

lemma discard_non_alphabet_ascii:
  "list_all (\<lambda>c. of_char c < (128::nat)) s
     \<Longrightarrow> list_all (\<lambda>c. of_char c < (128::nat)) (discard_non_alphabet s)"
  by (simp add: discard_non_alphabet_def list_all_iff)

lemma b64decode_discard:
  assumes "list_all (\<lambda>c. of_char c < (128::nat)) (text_of t)"
  shows "b64decode t = a2b_base64 (discard_non_alphabet (text_of t))"
  using assms by (cases t) (simp_all add: b64decode_def a2b_base64_def a2b_loop_discard)

text \<open>Values of the two functions on the texts used in the examples.\<close>

lemma decode_YWJj: "b64decode (Str ''YWJj'') = Inr ''abc''"
  by code_simp

lemma decode_YW_Jj: "b64decode (Str ''YW Jj'') = Inr ''abc''"
  by code_simp

lemma decode_YWJ: "b64decode (Str ''YWJ'') = Inl binascii_Error"
  by code_simp

lemma invalid_YW_Jj: "\<not> valid_base64 ''YW Jj''"
  by code_simp

lemma encode_abc: "b64encode ''abc'' = ''YWJj''"
  by code_simp

lemma discard_YW_Jj: "discard_non_alphabet ''YW Jj'' = ''YWJj''"
  by code_simp

lemma valid_YWJj: "valid_base64 ''YWJj''"
  by code_simp

lemma ascii_YW_Jj: "list_all (\<lambda>c. of_char c < (128::nat)) ''YW Jj''"
  by code_simp

section \<open>The loader\<close>

lemma loader_result:
  "SerializeImageData_lambda_handler w event =
     (case s3_objects w (s3_bucket event, s3_key event) of
        None \<Rightarrow> (Inl ClientError, w)
      | Some obj \<Rightarrow>
          (Inr \<lparr>body = Dict \<lparr>s3_bucket = s3_bucket event, s3_key = s3_key event,
                               image_data = Bytes (b64encode obj), inferences = JArr []\<rparr>,
                 statusCode = 200\<rparr>,
           w\<lparr>local_files := (local_files w)(''/tmp/image.png'' \<mapsto> obj)\<rparr>))"
  by (simp add: SerializeImageData_lambda_handler_def download_file_def open_read_def
        split: option.splits)

text \<open>
  Claim C5. When the bucket and the key of the event name a stored object, the
  loader returns an envelope whose \<^verbatim>\<open>image_data\<close> decodes, by \<open>b64decode\<close>, to exactly
  the bytes of that object, and whose \<^verbatim>\<open>inferences\<close> is the empty list.
\<close>

theorem loader_payload_decodes_to_object:
  assumes "s3_objects w (s3_bucket event, s3_key event) = Some obj"
  shows "\<exists>e. fst (SerializeImageData_lambda_handler w event)
                = Inr \<lparr>body = Dict e, statusCode = 200\<rparr> \<and>
             b64decode (image_data e) = Inr obj \<and> inferences e = JArr []"
  using assms by (simp add: loader_result b64decode_b64encode)

theorem loader_payload_decodes_to_object_witness:
  "\<exists>e. fst (SerializeImageData_lambda_handler
               \<lparr>s3_objects = [(''imgs'', ''cat.png'') \<mapsto> ''abc''], local_files = Map.empty\<rparr>
               \<lparr>s3_bucket = ''imgs'', s3_key = ''cat.png''\<rparr>)
          = Inr \<lparr>body = Dict e, statusCode = 200\<rparr> \<and>
        b64decode (image_data e) = Inr ''abc'' \<and> inferences e = JArr []"
  using loader_payload_decodes_to_object
          [of "\<lparr>s3_objects = [(''imgs'', ''cat.png'') \<mapsto> ''abc''], local_files = Map.empty\<rparr>"
              "\<lparr>s3_bucket = ''imgs'', s3_key = ''cat.png''\<rparr>" "''abc''"]
  by simp

section \<open>The classifier\<close>

lemma classifier_result:
  "Classifier_lambda_handler runtime event =
     (case b64decode (image_data (body event)) of
        Inl e \<Rightarrow> (Inl e, runtime)
      | Inr image' \<Rightarrow>
          (case endpoint runtime ENDPOINT_NAME ''image/png'' image' of
             Inl e \<Rightarrow> Inl e
           | Inr predictor \<Rightarrow>
               (case json_loads predictor of
                  Inl e \<Rightarrow> Inl e
                | Inr scores \<Rightarrow>
                    Inr \<lparr>body = Dict \<lparr>s3_bucket = s3_bucket (body event),
                                        s3_key = s3_key (body event),
                                        image_data = image_data (body event),
                                        inferences = scores\<rparr>,
                         statusCode = 200\<rparr>),
           runtime\<lparr>invocations :=
                     invocations runtime @ [(ENDPOINT_NAME, ''image/png'', image')]\<rparr>))"
  by (simp add: Classifier_lambda_handler_def invoke_endpoint_def split: sum.splits)

text \<open>
  Claim C6. When the classifier returns a result, its envelope has the
  \<^verbatim>\<open>image_data\<close>, the \<^verbatim>\<open>s3_bucket\<close> and the \<^verbatim>\<open>s3_key\<close> of the input, and its
  \<^verbatim>\<open>inferences\<close> is the value parsed from the answer of the endpoint to the decoded
  image.
\<close>

theorem classifier_echoes_envelope:
  assumes "fst (Classifier_lambda_handler runtime event) = Inr r"
  shows "\<exists>image' predictor scores.
           b64decode (image_data (body event)) = Inr image' \<and>
           endpoint runtime ENDPOINT_NAME ''image/png'' image' = Inr predictor \<and>
           json_loads predictor = Inr scores \<and>
           r = \<lparr>body = Dict \<lparr>s3_bucket = s3_bucket (body event),
                              s3_key = s3_key (body event),
                              image_data = image_data (body event),
                              inferences = scores\<rparr>,
                statusCode = 200\<rparr>"
  using assms by (auto simp: classifier_result split: sum.splits)

theorem classifier_echoes_envelope_witness:
  "fst (Classifier_lambda_handler
         \<lparr>endpoint = answering (Inr (Json_body (JArr [JNum 0.2, JNum 0.95, JNum 0.1]))),
          invocations = []\<rparr>
         \<lparr>body = \<lparr>s3_bucket = ''imgs'', s3_key = ''cat.png'', image_data = Str ''YWJj'',
                  inferences = JArr []\<rparr>, statusCode = 200\<rparr>)
   = Inr \<lparr>body = Dict \<lparr>s3_bucket = ''imgs'', s3_key = ''cat.png'', image_data = Str ''YWJj'',
                       inferences = JArr [JNum 0.2, JNum 0.95, JNum 0.1]\<rparr>,
          statusCode = 200\<rparr>"
proof -
  let ?rt = "\<lparr>endpoint = answering (Inr (Json_body (JArr [JNum 0.2, JNum 0.95, JNum 0.1]))),
          invocations = []\<rparr>"
  let ?ev = "\<lparr>body = \<lparr>s3_bucket = ''imgs'', s3_key = ''cat.png'', image_data = Str ''YWJj'',
                  inferences = JArr []\<rparr>, statusCode = 200\<rparr>"
  obtain r where r: "fst (Classifier_lambda_handler ?rt ?ev) = Inr r"
    by (simp add: classifier_result decode_YWJj answering_def)
  from classifier_echoes_envelope [OF r] r show ?thesis
    by (auto simp: decode_YWJj answering_def)
qed

text \<open>
  Claim C8, as amended. The classifier does not inspect the scores: whenever the
  image decodes, the endpoint answers and the answer is JSON text, the value parsed
  is returned under \<^verbatim>\<open>inferences\<close> with the status 200, whether or not it is a
  non-empty array of numbers.
\<close>

theorem classifier_returns_parsed_answer:
  assumes "b64decode (image_data (body event)) = Inr image'"
    and "endpoint runtime ENDPOINT_NAME ''image/png'' image' = Inr predictor"
    and "json_loads predictor = Inr scores"
  shows "fst (Classifier_lambda_handler runtime event)
           = Inr \<lparr>body = Dict \<lparr>s3_bucket = s3_bucket (body event),
                                s3_key = s3_key (body event),
                                image_data = image_data (body event),
                                inferences = scores\<rparr>,
                  statusCode = 200\<rparr>"
  using assms by (simp add: classifier_result)

theorem classifier_returns_parsed_answer_witness:
  "fst (Classifier_lambda_handler
         \<lparr>endpoint = answering (Inr (Json_body (JArr [JNum 0.01, JNum 0.99]))),
          invocations = []\<rparr>
         \<lparr>body = \<lparr>s3_bucket = ''imgs'', s3_key = ''cat.png'', image_data = Str ''YWJj'',
                  inferences = JArr []\<rparr>\<rparr>)
   = Inr \<lparr>body = Dict \<lparr>s3_bucket = ''imgs'', s3_key = ''cat.png'', image_data = Str ''YWJj'',
                       inferences = JArr [JNum 0.01, JNum 0.99]\<rparr>,
          statusCode = 200\<rparr>"
  using classifier_returns_parsed_answer
          [of "\<lparr>body = \<lparr>s3_bucket = ''imgs'', s3_key = ''cat.png'', image_data = Str ''YWJj'',
                  inferences = JArr []\<rparr>\<rparr>" "''abc''"
              "\<lparr>endpoint = answering (Inr (Json_body (JArr [JNum 0.01, JNum 0.99]))),
                invocations = []\<rparr>"
              "Json_body (JArr [JNum 0.01, JNum 0.99])" "JArr [JNum 0.01, JNum 0.99]"]
  by (simp add: decode_YWJj answering_def)

text \<open>
  The claim as stated fails: an endpoint that answers with the empty array, or with
  an array of a string and \<^verbatim>\<open>null\<close>, makes the classifier return that array in a
  result of status 200.
\<close>

theorem classifier_returns_invalid_scores:
  "\<not> valid_scores (JArr []) \<and>
   fst (Classifier_lambda_handler
         \<lparr>endpoint = answering (Inr (Json_body (JArr []))), invocations = []\<rparr>
         \<lparr>body = \<lparr>s3_bucket = ''imgs'', s3_key = ''cat.png'', image_data = Str ''YWJj'',
                  inferences = JArr []\<rparr>\<rparr>)
   = Inr \<lparr>body = Dict \<lparr>s3_bucket = ''imgs'', s3_key = ''cat.png'', image_data = Str ''YWJj'',
                       inferences = JArr []\<rparr>,
          statusCode = 200\<rparr> \<and>
   \<not> valid_scores (JArr [JStr ''cat'', JNull]) \<and>
   fst (Classifier_lambda_handler
         \<lparr>endpoint = answering (Inr (Json_body (JArr [JStr ''cat'', JNull]))), invocations = []\<rparr>
         \<lparr>body = \<lparr>s3_bucket = ''imgs'', s3_key = ''cat.png'', image_data = Str ''YWJj'',
                  inferences = JArr []\<rparr>\<rparr>)
   = Inr \<lparr>body = Dict \<lparr>s3_bucket = ''imgs'', s3_key = ''cat.png'', image_data = Str ''YWJj'',
                       inferences = JArr [JStr ''cat'', JNull]\<rparr>,
          statusCode = 200\<rparr>"
  by (simp add: classifier_result decode_YWJj answering_def)

text \<open>
  Claim C9, as amended. Whenever \<open>b64decode\<close> raises on the \<^verbatim>\<open>image_data\<close> of the
  input, the classifier fails with that exception, \<^verbatim>\<open>binascii.Error\<close> or \<^verbatim>\<open>ValueError\<close>,
  and the runtime is left as it was: the endpoint has not been invoked; such an
  \<^verbatim>\<open>image_data\<close> is never valid base64. An ASCII \<^verbatim>\<open>image_data\<close> is decoded as the text
  that is left when the characters that are neither of the alphabet nor \<^verbatim>\<open>=\<close> are
  taken out of it; when that text is valid base64, decoding returns bytes and the
  endpoint is invoked with them.
\<close>

theorem classifier_decode_error_before_invocation:
  "(b64decode (image_data (body event)) = Inl e \<longrightarrow>
      Classifier_lambda_handler runtime event = (Inl e, runtime) \<and>
      (e = binascii_Error \<or> e = ValueError) \<and>
      \<not> valid_base64 (text_of (image_data (body event)))) \<and>
   (list_all (\<lambda>c. of_char c < (128::nat)) (text_of (image_data (body event))) \<longrightarrow>
      b64decode (image_data (body event))
        = a2b_base64 (discard_non_alphabet (text_of (image_data (body event)))) \<and>
      (valid_base64 (discard_non_alphabet (text_of (image_data (body event)))) \<longrightarrow>
         (\<exists>image'. b64decode (image_data (body event)) = Inr image' \<and>
            snd (Classifier_lambda_handler runtime event)
              = runtime\<lparr>invocations :=
                   invocations runtime @ [(ENDPOINT_NAME, ''image/png'', image')]\<rparr>)))"
proof (intro conjI impI)
  assume err: "b64decode (image_data (body event)) = Inl e"
  then show "Classifier_lambda_handler runtime event = (Inl e, runtime)"
    by (simp add: classifier_result)
  from err show "e = binascii_Error \<or> e = ValueError"
    by (rule b64decode_error)
  from err show "\<not> valid_base64 (text_of (image_data (body event)))"
    by (rule b64decode_error_invalid)
next
  assume ascii: "list_all (\<lambda>c. of_char c < (128::nat)) (text_of (image_data (body event)))"
  then show dec: "b64decode (image_data (body event))
        = a2b_base64 (discard_non_alphabet (text_of (image_data (body event))))"
    by (rule b64decode_discard)
  assume "valid_base64 (discard_non_alphabet (text_of (image_data (body event))))"
  then obtain image' where
    "a2b_base64 (discard_non_alphabet (text_of (image_data (body event)))) = Inr image'"
    using valid_base64_decodes by blast
  with dec have "b64decode (image_data (body event)) = Inr image'"
    by simp
  then show "\<exists>image'. b64decode (image_data (body event)) = Inr image' \<and>
            snd (Classifier_lambda_handler runtime event)
              = runtime\<lparr>invocations :=
                   invocations runtime @ [(ENDPOINT_NAME, ''image/png'', image')]\<rparr>"
    by (simp add: classifier_result)
qed

theorem classifier_decode_error_before_invocation_witness:
  "Classifier_lambda_handler
     \<lparr>endpoint = answering (Inr (Json_body (JArr [JNum 0.2, JNum 0.95, JNum 0.1]))),
      invocations = []\<rparr>
     \<lparr>body = \<lparr>s3_bucket = ''imgs'', s3_key = ''cat.png'', image_data = Str ''YWJ'',
              inferences = JArr []\<rparr>\<rparr>
   = (Inl binascii_Error,
      \<lparr>endpoint = answering (Inr (Json_body (JArr [JNum 0.2, JNum 0.95, JNum 0.1]))),
       invocations = []\<rparr>) \<and>
   \<not> valid_base64 ''YWJ'' \<and>
   invocations (snd (Classifier_lambda_handler
     \<lparr>endpoint = answering (Inr (Json_body (JArr [JNum 0.2, JNum 0.95, JNum 0.1]))),
      invocations = []\<rparr>
     \<lparr>body = \<lparr>s3_bucket = ''imgs'', s3_key = ''cat.png'', image_data = Str ''YW Jj'',
              inferences = JArr []\<rparr>\<rparr>))
   = [(ENDPOINT_NAME, ''image/png'', ''abc'')]"
proof -
  let ?rt = "\<lparr>endpoint = answering (Inr (Json_body (JArr [JNum 0.2, JNum 0.95, JNum 0.1]))),
      invocations = []\<rparr>"
  let ?bad = "\<lparr>body = \<lparr>s3_bucket = ''imgs'', s3_key = ''cat.png'', image_data = Str ''YWJ'',
              inferences = JArr []\<rparr>\<rparr>"
  let ?spaced = "\<lparr>body = \<lparr>s3_bucket = ''imgs'', s3_key = ''cat.png'',
              image_data = Str ''YW Jj'', inferences = JArr []\<rparr>\<rparr>"
  from classifier_decode_error_before_invocation [of ?bad binascii_Error ?rt]
  have "Classifier_lambda_handler ?rt ?bad = (Inl binascii_Error, ?rt) \<and> \<not> valid_base64 ''YWJ''"
    by (simp add: decode_YWJ)
  moreover
  from classifier_decode_error_before_invocation [of ?spaced binascii_Error ?rt]
  have "invocations (snd (Classifier_lambda_handler ?rt ?spaced))
          = [(ENDPOINT_NAME, ''image/png'', ''abc'')]"
    by (simp add: ascii_YW_Jj discard_YW_Jj valid_YWJj decode_YW_Jj)
  ultimately show ?thesis by simp
qed

text \<open>
  The claim as stated fails: \<^verbatim>\<open>YW Jj\<close> is not valid base64, since it contains a space,
  but \<open>b64decode\<close> skips the space; the classifier invokes the endpoint with the bytes
  \<^verbatim>\<open>abc\<close> and returns a result.
\<close>

theorem classifier_decodes_invalid_base64:
  "\<not> valid_base64 ''YW Jj'' \<and>
   Classifier_lambda_handler
     \<lparr>endpoint = answering (Inr (Json_body (JArr [JNum 0.2, JNum 0.95, JNum 0.1]))),
      invocations = []\<rparr>
     \<lparr>body = \<lparr>s3_bucket = ''imgs'', s3_key = ''cat.png'', image_data = Str ''YW Jj'',
              inferences = JArr []\<rparr>\<rparr>
   = (Inr \<lparr>body = Dict \<lparr>s3_bucket = ''imgs'', s3_key = ''cat.png'',
                         image_data = Str ''YW Jj'',
                         inferences = JArr [JNum 0.2, JNum 0.95, JNum 0.1]\<rparr>,
           statusCode = 200\<rparr>,
      \<lparr>endpoint = answering (Inr (Json_body (JArr [JNum 0.2, JNum 0.95, JNum 0.1]))),
       invocations = [(ENDPOINT_NAME, ''image/png'', ''abc'')]\<rparr>)"
  by (simp add: classifier_result decode_YW_Jj invalid_YW_Jj answering_def)

section \<open>The results of the three handlers\<close>

text \<open>
  Claim C3, as amended. A result of the loader or of the classifier has the status
  200 and, under \<^verbatim>\<open>body\<close>, a dictionary with the four keys of the envelope. For the
  loader these are the bucket and the key of the event, an \<^verbatim>\<open>image_data\<close> that holds
  the base64 encoding of the stored object, and the empty list. For the classifier
  they are the three fields of the input and, as \<^verbatim>\<open>inferences\<close>, the value parsed from
  the endpoint's answer to the decoded image. A result of the filter has the status
  200 and, under \<^verbatim>\<open>body\<close>, the JSON text of the filter's event.
\<close>

theorem handlers_success_shapes:
  "(fst (SerializeImageData_lambda_handler w event1) = Inr r1 \<longrightarrow>
      (\<exists>obj e. s3_objects w (s3_bucket event1, s3_key event1) = Some obj \<and>
         r1 = \<lparr>body = Dict e, statusCode = 200\<rparr> \<and>
         s3_bucket e = s3_bucket event1 \<and> s3_key e = s3_key event1 \<and>
         text_of (image_data e) = b64encode obj \<and> inferences e = JArr [])) \<and>
   (fst (Classifier_lambda_handler runtime event2) = Inr r2 \<longrightarrow>
      (\<exists>image' predictor scores.
         b64decode (image_data (body event2)) = Inr image' \<and>
         endpoint runtime ENDPOINT_NAME ''image/png'' image' = Inr predictor \<and>
         json_loads predictor = Inr scores \<and>
         r2 = \<lparr>body = Dict \<lparr>s3_bucket = s3_bucket (body event2),
                             s3_key = s3_key (body event2),
                             image_data = image_data (body event2),
                             inferences = scores\<rparr>,
               statusCode = 200\<rparr>)) \<and>
   (FilterConfidence_lambda_handler serializable event3 = Inr r3 \<longrightarrow>
      r3 = \<lparr>body = Json_dumps event3, statusCode = 200\<rparr>)"
proof (intro conjI impI)
  assume "fst (SerializeImageData_lambda_handler w event1) = Inr r1"
  then show "\<exists>obj e. s3_objects w (s3_bucket event1, s3_key event1) = Some obj \<and>
         r1 = \<lparr>body = Dict e, statusCode = 200\<rparr> \<and>
         s3_bucket e = s3_bucket event1 \<and> s3_key e = s3_key event1 \<and>
         text_of (image_data e) = b64encode obj \<and> inferences e = JArr []"
    by (auto simp: loader_result split: option.splits)
next
  assume "fst (Classifier_lambda_handler runtime event2) = Inr r2"
  then show "\<exists>image' predictor scores.
         b64decode (image_data (body event2)) = Inr image' \<and>
         endpoint runtime ENDPOINT_NAME ''image/png'' image' = Inr predictor \<and>
         json_loads predictor = Inr scores \<and>
         r2 = \<lparr>body = Dict \<lparr>s3_bucket = s3_bucket (body event2),
                             s3_key = s3_key (body event2),
                             image_data = image_data (body event2),
                             inferences = scores\<rparr>,
               statusCode = 200\<rparr>"
    by (auto simp: classifier_result split: sum.splits)
next
  assume "FilterConfidence_lambda_handler serializable event3 = Inr r3"
  then show "r3 = \<lparr>body = Json_dumps event3, statusCode = 200\<rparr>"
    by (auto simp: FilterConfidence_lambda_handler_def json_dumps_def Let_def
          split: sum.splits if_splits)
qed

theorem handlers_success_shapes_witness:
  "(\<exists>e. fst (SerializeImageData_lambda_handler
         \<lparr>s3_objects = [(''imgs'', ''cat.png'') \<mapsto> ''abc''], local_files = Map.empty\<rparr>
         \<lparr>s3_bucket = ''imgs'', s3_key = ''cat.png''\<rparr>)
        = Inr \<lparr>body = Dict e, statusCode = 200\<rparr> \<and>
        s3_bucket e = ''imgs'' \<and> s3_key e = ''cat.png'' \<and>
        text_of (image_data e) = ''YWJj'' \<and> inferences e = JArr []) \<and>
   fst (Classifier_lambda_handler
         \<lparr>endpoint = answering (Inr (Json_body (JArr [JNum 0.2, JNum 0.95, JNum 0.1]))),
          invocations = []\<rparr>
         \<lparr>body = \<lparr>s3_bucket = ''imgs'', s3_key = ''cat.png'', image_data = Str ''YWJj'',
                  inferences = JArr []\<rparr>, statusCode = 200\<rparr>)
   = Inr \<lparr>body = Dict \<lparr>s3_bucket = ''imgs'', s3_key = ''cat.png'', image_data = Str ''YWJj'',
                       inferences = JArr [JNum 0.2, JNum 0.95, JNum 0.1]\<rparr>,
          statusCode = 200\<rparr> \<and>
   FilterConfidence_lambda_handler json_values
     \<lparr>body = \<lparr>s3_bucket = ''imgs'', s3_key = ''cat.png'', image_data = Str ''YWJj'',
              inferences = [0.2, 0.95, 0.1]\<rparr>, statusCode = 200\<rparr>
   = Inr \<lparr>body = Json_dumps
               \<lparr>body = \<lparr>s3_bucket = ''imgs'', s3_key = ''cat.png'', image_data = Str ''YWJj'',
                        inferences = [0.2, 0.95, 0.1]\<rparr>, statusCode = 200\<rparr>,
          statusCode = 200\<rparr>"
proof -
  let ?w = "\<lparr>s3_objects = [(''imgs'', ''cat.png'') \<mapsto> ''abc''], local_files = Map.empty\<rparr>"
  let ?ev1 = "\<lparr>s3_bucket = ''imgs'', s3_key = ''cat.png''\<rparr>"
  let ?rt = "\<lparr>endpoint = answering (Inr (Json_body (JArr [JNum 0.2, JNum 0.95, JNum 0.1]))),
          invocations = []\<rparr>"
  let ?ev2 = "\<lparr>body = \<lparr>s3_bucket = ''imgs'', s3_key = ''cat.png'', image_data = Str ''YWJj'',
                  inferences = JArr []\<rparr>, statusCode = 200\<rparr>"
  let ?ev3 = "\<lparr>body = \<lparr>s3_bucket = ''imgs'', s3_key = ''cat.png'', image_data = Str ''YWJj'',
              inferences = [0.2, 0.95, 0.1]\<rparr>, statusCode = 200\<rparr>"
  obtain r1 where r1: "fst (SerializeImageData_lambda_handler ?w ?ev1) = Inr r1"
    by (simp add: loader_result)
  obtain r2 where r2: "fst (Classifier_lambda_handler ?rt ?ev2) = Inr r2"
    by (simp add: classifier_result decode_YWJj answering_def)
  obtain r3 where r3: "FilterConfidence_lambda_handler json_values ?ev3 = Inr r3"
    by (simp add: FilterConfidence_lambda_handler_def json_dumps_def json_serializable_def
          json_values_def THRESHOLD_def)
  note shapes = handlers_success_shapes [of ?w ?ev1 r1 ?rt ?ev2 r2 json_values ?ev3 r3]
  have "\<exists>e. r1 = \<lparr>body = Dict e, statusCode = 200\<rparr> \<and>
        s3_bucket e = ''imgs'' \<and> s3_key e = ''cat.png'' \<and>
        text_of (image_data e) = ''YWJj'' \<and> inferences e = JArr []"
    using shapes r1 by (auto simp: encode_abc)
  moreover have "r2 = \<lparr>body = Dict \<lparr>s3_bucket = ''imgs'', s3_key = ''cat.png'',
                       image_data = Str ''YWJj'',
                       inferences = JArr [JNum 0.2, JNum 0.95, JNum 0.1]\<rparr>,
          statusCode = 200\<rparr>"
    using shapes r2 by (auto simp: decode_YWJj answering_def)
  moreover have "r3 = \<lparr>body = Json_dumps ?ev3, statusCode = 200\<rparr>"
    using shapes r3 by simp
  ultimately show ?thesis
    using r1 r2 r3 by simp
qed

text \<open>
  The claim as stated fails for the filter, where no result on the score 0.99 has an
  envelope under \<^verbatim>\<open>body\<close>, and for the classifier, which returns as \<^verbatim>\<open>inferences\<close> an
  array of a string and \<^verbatim>\<open>null\<close> when the endpoint answers with it.
\<close>

theorem filter_success_shape_counterexample:
  "\<not> (\<exists>e. FilterConfidence_lambda_handler json_values
           \<lparr>body = \<lparr>s3_bucket = ''imgs'', s3_key = ''cat.png'', image_data = Str ''YWJj'',
                    inferences = [0.99]\<rparr>, statusCode = 200\<rparr>
          = Inr \<lparr>body = Dict e, statusCode = 200\<rparr>) \<and>
   (\<exists>r. FilterConfidence_lambda_handler json_values
           \<lparr>body = \<lparr>s3_bucket = ''imgs'', s3_key = ''cat.png'', image_data = Str ''YWJj'',
                    inferences = [0.99]\<rparr>, statusCode = 200\<rparr> = Inr r) \<and>
   \<not> valid_scores (JArr [JStr ''cat'', JNull]) \<and>
   fst (Classifier_lambda_handler
         \<lparr>endpoint = answering (Inr (Json_body (JArr [JStr ''cat'', JNull]))), invocations = []\<rparr>
         \<lparr>body = \<lparr>s3_bucket = ''imgs'', s3_key = ''cat.png'', image_data = Str ''YWJj'',
                  inferences = JArr []\<rparr>, statusCode = 200\<rparr>)
   = Inr \<lparr>body = Dict \<lparr>s3_bucket = ''imgs'', s3_key = ''cat.png'', image_data = Str ''YWJj'',
                       inferences = JArr [JStr ''cat'', JNull]\<rparr>,
          statusCode = 200\<rparr>"
  by (simp add: FilterConfidence_lambda_handler_def json_dumps_def json_serializable_def
        json_values_def THRESHOLD_def classifier_result decode_YWJj answering_def)

end
